theory Spec2Isabelle
  imports Complex_Main
begin

section \<open>JavaScript numbers\<close>

text \<open>
  The physics library computes with JavaScript numbers, the binary64 values of IEEE 754.
  They are modelled as the real numbers extended by the three special values, so that a
  division by zero, a root of a negative number and a comparison with \<open>NaN\<close> do in the
  model what they do in the program.
\<close>

datatype jsnum = Fin real | PInf | NInf | NaN

text \<open>
  The range of binary64. Under rounding to nearest, a result whose magnitude reaches
  \<open>2^1024 - 2^970\<close> (the largest finite value and half a unit in its last place)
  becomes an infinity, and one whose magnitude is at most \<open>2^-1075\<close> (half the least
  subnormal value) becomes zero. Every arithmetic operation of the model passes its
  exact result through \<open>range64\<close>. Between the two thresholds the exact result is
  kept: the rounding of a result to 53 significant bits is not modelled, and neither is
  the sign of zero. A statement below that depends on the last bits of a result (a
  printed digit, the side of a threshold) is therefore made only for arguments where
  the rounding cannot change it.
\<close>

definition overflow_threshold :: real where
  "overflow_threshold = 2 ^ 1024 - 2 ^ 970"

definition underflow_threshold :: real where
  "underflow_threshold = 1 / 2 ^ 1075"

definition range64 :: "real \<Rightarrow> jsnum" where
  "range64 p =
     (if overflow_threshold \<le> p then PInf
      else if p \<le> - overflow_threshold then NInf
      else if \<bar>p\<bar> \<le> underflow_threshold then Fin 0
      else Fin p)"

instantiation jsnum :: "{uminus, plus, minus, times, inverse, ord}"
begin

fun uminus_jsnum :: "jsnum \<Rightarrow> jsnum" where
  "uminus_jsnum (Fin a) = Fin (- a)"
| "uminus_jsnum PInf = NInf"
| "uminus_jsnum NInf = PInf"
| "uminus_jsnum NaN = NaN"

fun plus_jsnum :: "jsnum \<Rightarrow> jsnum \<Rightarrow> jsnum" where
  "plus_jsnum (Fin a) (Fin b) = range64 (a + b)"
| "plus_jsnum (Fin a) PInf = PInf"
| "plus_jsnum (Fin a) NInf = NInf"
| "plus_jsnum PInf (Fin b) = PInf"
| "plus_jsnum PInf PInf = PInf"
| "plus_jsnum PInf NInf = NaN"
| "plus_jsnum NInf (Fin b) = NInf"
| "plus_jsnum NInf PInf = NaN"
| "plus_jsnum NInf NInf = NInf"
| "plus_jsnum NaN v = NaN"
| "plus_jsnum u NaN = NaN"

definition minus_jsnum :: "jsnum \<Rightarrow> jsnum \<Rightarrow> jsnum" where
  "minus_jsnum u v = u + (- v)"

fun times_jsnum :: "jsnum \<Rightarrow> jsnum \<Rightarrow> jsnum" where
  "times_jsnum (Fin a) (Fin b) = range64 (a * b)"
| "times_jsnum (Fin a) PInf = (if a = 0 then NaN else if 0 < a then PInf else NInf)"
| "times_jsnum (Fin a) NInf = (if a = 0 then NaN else if 0 < a then NInf else PInf)"
| "times_jsnum PInf (Fin b) = (if b = 0 then NaN else if 0 < b then PInf else NInf)"
| "times_jsnum NInf (Fin b) = (if b = 0 then NaN else if 0 < b then NInf else PInf)"
| "times_jsnum PInf PInf = PInf"
| "times_jsnum PInf NInf = NInf"
| "times_jsnum NInf PInf = NInf"
| "times_jsnum NInf NInf = PInf"
| "times_jsnum NaN v = NaN"
| "times_jsnum u NaN = NaN"

fun divide_jsnum :: "jsnum \<Rightarrow> jsnum \<Rightarrow> jsnum" where
  "divide_jsnum (Fin a) (Fin b) =
     (if b = 0 then (if a = 0 then NaN else if 0 < a then PInf else NInf)
      else range64 (a / b))"
| "divide_jsnum (Fin a) PInf = Fin 0"
| "divide_jsnum (Fin a) NInf = Fin 0"
| "divide_jsnum PInf (Fin b) = (if 0 \<le> b then PInf else NInf)"
| "divide_jsnum NInf (Fin b) = (if 0 \<le> b then NInf else PInf)"
| "divide_jsnum PInf PInf = NaN"
| "divide_jsnum PInf NInf = NaN"
| "divide_jsnum NInf PInf = NaN"
| "divide_jsnum NInf NInf = NaN"
| "divide_jsnum NaN v = NaN"
| "divide_jsnum u NaN = NaN"

definition inverse_jsnum :: "jsnum \<Rightarrow> jsnum" where
  "inverse_jsnum u = divide (Fin 1) u"

fun less_jsnum :: "jsnum \<Rightarrow> jsnum \<Rightarrow> bool" where
  "less_jsnum (Fin a) (Fin b) = (a < b)"
| "less_jsnum (Fin a) PInf = True"
| "less_jsnum NInf (Fin b) = True"
| "less_jsnum NInf PInf = True"
| "less_jsnum u v = False"

fun less_eq_jsnum :: "jsnum \<Rightarrow> jsnum \<Rightarrow> bool" where
  "less_eq_jsnum (Fin a) (Fin b) = (a \<le> b)"
| "less_eq_jsnum (Fin a) PInf = True"
| "less_eq_jsnum NInf (Fin b) = True"
| "less_eq_jsnum NInf NInf = True"
| "less_eq_jsnum NInf PInf = True"
| "less_eq_jsnum PInf PInf = True"
| "less_eq_jsnum u v = False"

instance ..

end

text \<open>Strict equality \<open>===\<close> on numbers: \<open>NaN\<close> is equal to nothing, itself included.\<close>

definition strict_equals :: "jsnum \<Rightarrow> jsnum \<Rightarrow> bool" where
  "strict_equals u v = (u \<noteq> NaN \<and> u = v)"

text \<open>\<open>Math.sqrt\<close>: \<open>NaN\<close> below zero.\<close>

fun Math_sqrt :: "jsnum \<Rightarrow> jsnum" where
  "Math_sqrt (Fin a) = (if a < 0 then NaN else Fin (sqrt a))"
| "Math_sqrt PInf = PInf"
| "Math_sqrt NInf = NaN"
| "Math_sqrt NaN = NaN"

text \<open>
  \<open>Math.pow\<close>, by the cases of the language standard (Number::exponentiate), read
  without a negative zero.
\<close>

definition odd_integer :: "real \<Rightarrow> bool" where
  "odd_integer e = (of_int \<lfloor>e\<rfloor> = e \<and> odd \<lfloor>e\<rfloor>)"

fun Math_pow :: "jsnum \<Rightarrow> jsnum \<Rightarrow> jsnum" where
  "Math_pow u NaN = NaN"
| "Math_pow u (Fin e) =
     (if e = 0 then Fin 1
      else (case u of
          NaN \<Rightarrow> NaN
        | PInf \<Rightarrow> (if 0 < e then PInf else Fin 0)
        | NInf \<Rightarrow> (if 0 < e then (if odd_integer e then NInf else PInf) else Fin 0)
        | Fin a \<Rightarrow>
            (if a = 0 then (if 0 < e then Fin 0 else PInf)
             else if 0 < a then range64 (a powr e)
             else if of_int \<lfloor>e\<rfloor> = e
               then range64 ((if odd \<lfloor>e\<rfloor> then - 1 else 1) * (\<bar>a\<bar> powr e))
             else NaN)))"
| "Math_pow NaN PInf = NaN"
| "Math_pow NaN NInf = NaN"
| "Math_pow PInf PInf = PInf"
| "Math_pow NInf PInf = PInf"
| "Math_pow PInf NInf = Fin 0"
| "Math_pow NInf NInf = Fin 0"
| "Math_pow (Fin a) PInf = (if 1 < \<bar>a\<bar> then PInf else if \<bar>a\<bar> = 1 then NaN else Fin 0)"
| "Math_pow (Fin a) NInf = (if 1 < \<bar>a\<bar> then Fin 0 else if \<bar>a\<bar> = 1 then NaN else PInf)"

section \<open>The physics library\<close>

text \<open>The constants of \<open>Physics\<close>: \<open>G: 6.67430e-11\<close>, \<open>c: 299792458\<close>, \<open>solarMass: 1.989e30\<close>.\<close>

definition Physics_G :: jsnum where
  "Physics_G = Fin (6.67430 / 10 ^ 11)"

definition Physics_c :: jsnum where
  "Physics_c = Fin 299792458"

definition Physics_solarMass :: jsnum where
  "Physics_solarMass = Fin (1.989 * 10 ^ 30)"

definition calculateSchwarzschildRadius :: "jsnum \<Rightarrow> jsnum" where
  "calculateSchwarzschildRadius mass =
     (let massKg = mass * Physics_solarMass;
          rs = (Fin 2 * Physics_G * massKg) / (Physics_c * Physics_c)
      in rs / Fin 1000)"

definition calculateEventHorizon :: "jsnum \<Rightarrow> jsnum" where
  "calculateEventHorizon mass = calculateSchwarzschildRadius mass"

definition calculateISCO :: "jsnum \<Rightarrow> jsnum \<Rightarrow> jsnum" where
  "calculateISCO mass spin =
     (let rs = calculateSchwarzschildRadius mass;
          Z1 = Fin 1 + Math_pow (Fin 1 - spin * spin) (Fin 1 / Fin 3) *
                 (Math_pow (Fin 1 + spin) (Fin 1 / Fin 3) + Math_pow (Fin 1 - spin) (Fin 1 / Fin 3));
          Z2 = Math_sqrt (Fin 3 * spin * spin + Z1 * Z1);
          rISCO = rs * (Fin 3 + Z2 - Math_sqrt ((Fin 3 - Z1) * (Fin 3 + Z1 + Fin 2 * Z2)))
      in rISCO)"


definition calculateOrbitalVelocity :: "jsnum \<Rightarrow> jsnum \<Rightarrow> jsnum" where
  "calculateOrbitalVelocity mass radius =
     (let massKg = mass * Physics_solarMass;
          radiusM = radius * Fin 1000
      in Math_sqrt ((Physics_G * massKg) / radiusM))"

text \<open>The object \<open>{ r, g, b }\<close> that the colour mapping returns.\<close>

record rgb =
  rgb_r :: jsnum
  rgb_g :: jsnum
  rgb_b :: jsnum

definition calculateAccretionTemperature :: "jsnum \<Rightarrow> jsnum \<Rightarrow> jsnum \<Rightarrow> rgb" where
  "calculateAccretionTemperature mass radius colorTemp =
     (let baseTempFactor = Fin 1.0 / Math_pow radius (Fin 0.75);
          temp = baseTempFactor * (Fin 0.5 + colorTemp * Fin 0.5)
      in if temp < Fin 0.33 then
           \<lparr>rgb_r = temp * Fin 3.0, rgb_g = temp * Fin 2.5, rgb_b = Fin 1.0\<rparr>
         else if temp < Fin 0.66 then
           (let t = (temp - Fin 0.33) * Fin 3.0
            in \<lparr>rgb_r = Fin 0.33 + t * Fin 0.67,
                rgb_g = Fin 0.83 + t * Fin 0.17,
                rgb_b = Fin 1.0 - t * Fin 0.3\<rparr>)
         else
           (let t = (temp - Fin 0.66) * Fin 3.0
            in \<lparr>rgb_r = Fin 1.0,
                rgb_g = Fin 1.0 - t * Fin 0.6,
                rgb_b = Fin 0.7 - t * Fin 0.6\<rparr>))"


definition calculatePhotonSphere :: "jsnum \<Rightarrow> jsnum" where
  "calculatePhotonSphere mass = calculateSchwarzschildRadius mass * Fin 1.5"

definition calculateTimeDilation :: "jsnum \<Rightarrow> jsnum \<Rightarrow> jsnum" where
  "calculateTimeDilation mass radius =
     (let rs = calculateSchwarzschildRadius mass
      in if radius \<le> rs then Fin 0
         else Math_sqrt (Fin 1 - rs / radius))"

section \<open>Printing numbers\<close>

text \<open>
  \<open>formatValue\<close> prints with \<open>Number.prototype.toFixed\<close>, which is part of the
  language and is modelled here by the steps of the language standard. The decimal
  digits of a natural number, most significant first:
\<close>

definition digit_char :: "nat \<Rightarrow> char" where
  "digit_char d = ''0123456789'' ! d"

fun digits :: "nat \<Rightarrow> string" where
  "digits n = (if n < 10 then [digit_char n] else digits (n div 10) @ [digit_char (n mod 10)])"

declare digits.simps [simp del]

text \<open>
  \<open>Number::toString\<close> of a finite value from \<open>10^21\<close> on, which \<open>toFixed\<close> falls
  back to: scientific notation, the digits without their trailing zeros, a point after
  the first digit when there are several. Every binary64 value of this size is an
  integer. The digits are those of the exact value, where the program prints the
  shortest digits that read back as the same binary64 value; the two agree on every
  value with at most 15 significant digits, and the statements below evaluate
  \<open>toString_large\<close> on such values only.
\<close>

definition strip_zeros :: "string \<Rightarrow> string" where
  "strip_zeros ds = rev (dropWhile (\<lambda>d. d = CHR ''0'') (rev ds))"

definition toString_large :: "real \<Rightarrow> string" where
  "toString_large a =
     (let ds = digits (nat \<lfloor>a\<rfloor>);
          n = length ds;
          s = strip_zeros ds
      in (if length s = 1 then s else take 1 s @ ''.'' @ drop 1 s) @ ''e+'' @ digits (n - 1))"

text \<open>
  \<open>x.toFixed(fractionDigits)\<close>. The program only calls it with \<open>fractionDigits = 2\<close>;
  the \<open>RangeError\<close> for more than 100 digits cannot arise and is not modelled.
\<close>

definition toFixed :: "jsnum \<Rightarrow> nat \<Rightarrow> string" where
  "toFixed u f =
     (case u of
        NaN \<Rightarrow> ''NaN''
      | PInf \<Rightarrow> ''Infinity''
      | NInf \<Rightarrow> ''-Infinity''
      | Fin v \<Rightarrow>
          (let s = (if v < 0 then ''-'' else []);
               a = \<bar>v\<bar>
           in if 10 ^ 21 \<le> a then s @ toString_large a
              else (let n = nat \<lfloor>a * 10 ^ f + 1 / 2\<rfloor>;
                        m = digits n;
                        m = (if f \<noteq> 0 then
                               (let k = length m;
                                    m = (if k \<le> f then replicate (f + 1 - k) CHR ''0'' @ m else m);
                                    k = length m
                                in take (k - f) m @ ''.'' @ drop (k - f) m)
                             else m)
                    in s @ m)))"

definition formatValue :: "jsnum \<Rightarrow> string \<Rightarrow> string" where
  "formatValue value unit =
     (if Fin (10 ^ 6) \<le> value then toFixed (value / Fin (10 ^ 6)) 2 @ '' M'' @ unit
      else if Fin (10 ^ 3) \<le> value then toFixed (value / Fin (10 ^ 3)) 2 @ '' k'' @ unit
      else if Fin 1 \<le> value then toFixed value 2 @ '' '' @ unit
      else toFixed (value * Fin 1000) 2 @ '' m'' @ unit)"

section \<open>Bending a ray\<close>



section \<open>The words of the specification\<close>

text \<open>
  The specification's formula for the Schwarzschild radius in kilometres, over the
  reals: \<open>2 G (mass solarMass) / c\<^sup>2 / 1000\<close> with \<open>G = 6.67430e-11\<close>,
  \<open>c = 299792458\<close> and \<open>solarMass = 1.989e30\<close>.
\<close>

definition schwarzschild_km :: "real \<Rightarrow> real" where
  "schwarzschild_km m =
     2 * (6.67430 / 10 ^ 11) * (m * (1.989 * 10 ^ 30)) / (299792458 * 299792458) / 1000"

text \<open>
  A value rounded to two decimals, as the specification words the output of the
  formatter: the sign, the integer part of the rounded magnitude, a point and the two
  digits of its hundredths.
\<close>

definition two_decimals :: "real \<Rightarrow> string" where
  "two_decimals v =
     (let n = nat \<lfloor>\<bar>v\<bar> * 100 + 1 / 2\<rfloor>
      in (if v < 0 then ''-'' else []) @ digits (n div 100) @ ''.'' @
         [digit_char (n mod 100 div 10), digit_char (n mod 10)])"

text \<open>
  The specification's thresholds: the prefix of a value and the value scaled to it.
\<close>

definition magnitude_prefix :: "real \<Rightarrow> string" where
  "magnitude_prefix v =
     (if 10 ^ 6 \<le> v then '' M'' else if 10 ^ 3 \<le> v then '' k''
      else if 1 \<le> v then '' '' else '' m'')"

definition magnitude_scaled :: "real \<Rightarrow> real" where
  "magnitude_scaled v =
     (if 10 ^ 6 \<le> v then v / 10 ^ 6 else if 10 ^ 3 \<le> v then v / 10 ^ 3
      else if 1 \<le> v then v else v * 1000)"

text \<open>
  The program scales in binary64, which moves the exact quotient or product \<open>x\<close> by at
  most \<open>\<bar>x\<bar> / 2^53\<close> (or, among the subnormal values, by \<open>2^-1075\<close>). The value
  \<open>x\<close> is clear of ties when \<open>100 \<bar>x\<bar> + 1/2\<close> is farther than twice that bound,
  taken in hundredths, from every integer: then the rounded value and the exact one print
  the same two decimals. The statements about printed digits are made for such values,
  since the model scales exactly.
\<close>

definition clear_of_ties :: "real \<Rightarrow> bool" where
  "clear_of_ties x =
     (let y = \<bar>x\<bar> * 100 + 1 / 2;
          d = \<bar>x\<bar> * 100 / 2 ^ 52 + 1 / 2 ^ 1000
      in d < frac y \<and> frac y < 1 - d)"

section \<open>The range of the arithmetic\<close>

lemmas range64_eval = range64_def overflow_threshold_def underflow_threshold_def

lemma range64_0: "range64 0 = Fin 0"
  by (simp add: range64_eval)

lemma range64_not_NaN: "range64 p \<noteq> NaN"
  by (simp add: range64_def)

text \<open>A magnitude between \<open>10^-320\<close> and \<open>10^308\<close> is inside the range.\<close>

lemma range64_comfort:
  assumes "1 / 10 ^ 320 \<le> \<bar>p\<bar>" and "\<bar>p\<bar> \<le> 10 ^ 308"
  shows "range64 p = Fin p"
proof -
  have a: "(10 :: real) ^ 308 < overflow_threshold"
    by (simp add: overflow_threshold_def)
  have b: "underflow_threshold < 1 / (10 :: real) ^ 320"
    by (simp add: underflow_threshold_def)
  from assms a b have "\<not> overflow_threshold \<le> p" "\<not> p \<le> - overflow_threshold"
    "\<not> \<bar>p\<bar> \<le> underflow_threshold" by linarith+
  then show ?thesis by (simp add: range64_def)
qed

lemma scaled_in_range:
  assumes "lo \<le> \<bar>m\<bar>" and "\<bar>m\<bar> \<le> hi" and "p = m * k" and "0 < k"
    and "1 / 10 ^ 320 \<le> lo * k" and "hi * k \<le> 10 ^ 308"
  shows "range64 p = Fin p"
proof (rule range64_comfort)
  have e: "\<bar>p\<bar> = \<bar>m\<bar> * k" using assms(3,4) by (simp add: abs_mult)
  have "lo * k \<le> \<bar>m\<bar> * k" using assms(1,4) by (simp add: mult_right_mono)
  with assms(5) e show "1 / 10 ^ 320 \<le> \<bar>p\<bar>" by linarith
  have "\<bar>m\<bar> * k \<le> hi * k" using assms(2,4) by (simp add: mult_right_mono)
  with assms(6) e show "\<bar>p\<bar> \<le> 10 ^ 308" by linarith
qed

section \<open>The Schwarzschild radius\<close>

text \<open>
  For a mass of magnitude between \<open>10^-300\<close> and \<open>10^277\<close> no step of the computation
  leaves the range, and the program computes the specification's formula.
\<close>

lemma rs_Fin:
  assumes "1 / 10 ^ 300 \<le> \<bar>m\<bar>" and "\<bar>m\<bar> \<le> 10 ^ 277"
  shows "calculateSchwarzschildRadius (Fin m) = Fin (schwarzschild_km m)"
proof -
  note r = scaled_in_range [OF assms]
  define S :: real where "S = 1.989 * 10 ^ 30"
  define G2 :: real where "G2 = 2 * (6.67430 / 10 ^ 11)"
  define C2 :: real where "C2 = 299792458 * 299792458"
  have a: "Fin m * Physics_solarMass = Fin (m * S)"
  proof -
    have "range64 (m * S) = Fin (m * S)"
      by (rule r [where k = S]) (simp_all add: S_def)
    then show ?thesis by (simp add: Physics_solarMass_def S_def)
  qed
  have b: "Fin 2 * Physics_G = Fin G2"
    by (simp add: Physics_G_def G2_def range64_eval)
  have c: "Fin G2 * Fin (m * S) = Fin (G2 * (m * S))"
  proof -
    have "range64 (G2 * (m * S)) = Fin (G2 * (m * S))"
      by (rule r [where k = "G2 * S"]) (simp_all add: S_def G2_def)
    then show ?thesis by simp
  qed
  have d: "Physics_c * Physics_c = Fin C2"
    by (simp add: Physics_c_def C2_def range64_eval)
  have e: "Fin (G2 * (m * S)) / Fin C2 = Fin (G2 * (m * S) / C2)"
  proof -
    have "range64 (G2 * (m * S) / C2) = Fin (G2 * (m * S) / C2)"
      by (rule r [where k = "G2 * S / C2"]) (simp_all add: S_def G2_def C2_def)
    moreover have "C2 \<noteq> 0" by (simp add: C2_def)
    ultimately show ?thesis by simp
  qed
  have f: "Fin (G2 * (m * S) / C2) / Fin 1000 = Fin (G2 * (m * S) / C2 / 1000)"
  proof -
    have "range64 (G2 * (m * S) / C2 / 1000) = Fin (G2 * (m * S) / C2 / 1000)"
      by (rule r [where k = "G2 * S / C2 / 1000"]) (simp_all add: S_def G2_def C2_def)
    then show ?thesis by simp
  qed
  have "calculateSchwarzschildRadius (Fin m) = Fin (G2 * (m * S) / C2 / 1000)"
    by (simp only: calculateSchwarzschildRadius_def Let_def a b c d e f)
  also have "G2 * (m * S) / C2 / 1000 = schwarzschild_km m"
    by (simp only: schwarzschild_km_def G2_def S_def C2_def)
  finally show ?thesis .
qed

lemma rs_zero: "calculateSchwarzschildRadius (Fin 0) = Fin 0"
  by (simp add: calculateSchwarzschildRadius_def Physics_G_def Physics_c_def
      Physics_solarMass_def range64_eval)

text \<open>
  From \<open>10^278\<close> solar masses on the product \<open>mass * solarMass\<close> overflows, and the
  infinity reaches the result.
\<close>

lemma rs_overflow:
  assumes "10 ^ 278 \<le> m"
  shows "calculateSchwarzschildRadius (Fin m) = PInf"
proof -
  have "(10 :: real) ^ 278 * (1.989 * 10 ^ 30) \<le> m * (1.989 * 10 ^ 30)"
    using assms by (simp only: mult_right_mono zero_le_numeral zero_le_power
        zero_le_mult_iff zero_le_divide_iff simp_thms)
  moreover have "overflow_threshold \<le> (10 :: real) ^ 278 * (1.989 * 10 ^ 30)"
    by (simp add: overflow_threshold_def)
  ultimately have "overflow_threshold \<le> m * (1.989 * 10 ^ 30)" by linarith
  then have a: "Fin m * Physics_solarMass = PInf"
    by (simp add: Physics_solarMass_def range64_def)
  have b: "Fin 2 * Physics_G = Fin (2 * (6.67430 / 10 ^ 11))"
    by (simp add: Physics_G_def range64_eval)
  have d: "Physics_c * Physics_c = Fin (299792458 * 299792458)"
    by (simp add: Physics_c_def range64_eval)
  show ?thesis
    unfolding calculateSchwarzschildRadius_def Let_def a b d by simp
qed

lemma rs_not_NaN: "calculateSchwarzschildRadius (Fin m) \<noteq> NaN"
proof -
  have mul: "Fin k * u \<noteq> NaN" if "0 < k" and "u \<noteq> NaN" for k u
    using that by (cases u) (simp_all add: range64_not_NaN)
  have dv: "u / Fin k \<noteq> NaN" if "0 < k" and "u \<noteq> NaN" for k u
    using that by (cases u) (simp_all add: range64_not_NaN)
  have a: "Fin m * Physics_solarMass \<noteq> NaN"
    by (simp add: Physics_solarMass_def range64_not_NaN)
  have b: "Fin 2 * Physics_G = Fin (2 * (6.67430 / 10 ^ 11))"
    by (simp add: Physics_G_def range64_eval)
  have d: "Physics_c * Physics_c = Fin (299792458 * 299792458)"
    by (simp add: Physics_c_def range64_eval)
  have p: "(0 :: real) < 2 * (6.67430 / 10 ^ 11)" "(0 :: real) < 299792458 * 299792458"
    "(0 :: real) < 1000" by simp_all
  have "Fin (2 * (6.67430 / 10 ^ 11)) * (Fin m * Physics_solarMass) /
      Fin (299792458 * 299792458) / Fin 1000 \<noteq> NaN"
    by (rule dv [OF p(3) dv [OF p(2) mul [OF p(1) a]]])
  then show ?thesis
    unfolding calculateSchwarzschildRadius_def Let_def b d .
qed

lemma rs_pos: "0 < m \<Longrightarrow> 0 < schwarzschild_km m"
  by (simp add: schwarzschild_km_def)

lemma rs_10: "calculateSchwarzschildRadius (Fin 10) = Fin (schwarzschild_km 10)"
  by (rule rs_Fin) simp_all

section \<open>Radii\<close>

text \<open>
  C7. For every mass the event horizon radius is the Schwarzschild radius and the photon
  sphere radius is the Schwarzschild radius times 1.5, as the program multiplies. For a
  finite mass the two radii are also equal under the program's own equality \<open>===\<close>. For
  a mass between \<open>10^-300\<close> and \<open>10^277\<close> the photon sphere radius is 1.5 times the
  value of the specification's formula; from \<open>10^278\<close> on both radii are infinite.
\<close>

theorem C7_horizon_and_photon_sphere:
  "calculateEventHorizon mass = calculateSchwarzschildRadius mass \<and>
   calculatePhotonSphere mass = calculateSchwarzschildRadius mass * Fin 1.5 \<and>
   strict_equals (calculateEventHorizon (Fin m)) (calculateSchwarzschildRadius (Fin m)) \<and>
   (1 / 10 ^ 300 \<le> m \<and> m \<le> 10 ^ 277 \<longrightarrow>
      calculateSchwarzschildRadius (Fin m) = Fin (schwarzschild_km m) \<and>
      calculatePhotonSphere (Fin m) = Fin (1.5 * schwarzschild_km m)) \<and>
   (10 ^ 278 \<le> m \<longrightarrow>
      calculateSchwarzschildRadius (Fin m) = PInf \<and> calculatePhotonSphere (Fin m) = PInf)"
proof -
  have a: "calculateEventHorizon mass = calculateSchwarzschildRadius mass" for mass
    by (simp add: calculateEventHorizon_def)
  have b: "calculatePhotonSphere mass = calculateSchwarzschildRadius mass * Fin 1.5"
    by (simp add: calculatePhotonSphere_def)
  have c: "strict_equals (calculateEventHorizon (Fin m)) (calculateSchwarzschildRadius (Fin m))"
    using rs_not_NaN [of m] by (simp add: strict_equals_def a)
  have d: "calculateSchwarzschildRadius (Fin m) = Fin (schwarzschild_km m) \<and>
           calculatePhotonSphere (Fin m) = Fin (1.5 * schwarzschild_km m)"
    if lo: "1 / 10 ^ 300 \<le> m" and hi: "m \<le> 10 ^ 277"
  proof -
    from lo have pos: "0 < m" by (rule less_le_trans [rotated]) simp
    then have lo': "1 / 10 ^ 300 \<le> \<bar>m\<bar>" and hi': "\<bar>m\<bar> \<le> 10 ^ 277"
      using lo hi by simp_all
    have rs: "calculateSchwarzschildRadius (Fin m) = Fin (schwarzschild_km m)"
      using lo' hi' by (rule rs_Fin)
    have "range64 (schwarzschild_km m * 1.5) = Fin (schwarzschild_km m * 1.5)"
      using lo' hi' by (rule scaled_in_range [where k = "schwarzschild_km 1 * 1.5"])
        (simp_all add: schwarzschild_km_def)
    then have "calculatePhotonSphere (Fin m) = Fin (schwarzschild_km m * 1.5)"
      by (simp add: calculatePhotonSphere_def rs)
    then show ?thesis using rs by (simp add: mult.commute)
  qed
  have e: "calculateSchwarzschildRadius (Fin m) = PInf \<and> calculatePhotonSphere (Fin m) = PInf"
    if "10 ^ 278 \<le> m"
    using rs_overflow [OF that] by (simp add: calculatePhotonSphere_def)
  show ?thesis using a b c d e by blast
qed

theorem C7_horizon_and_photon_sphere_witness:
  "1 / 10 ^ 300 \<le> (10 :: real) \<and> (10 :: real) \<le> 10 ^ 277 \<and>
   calculateEventHorizon (Fin 10) = calculateSchwarzschildRadius (Fin 10) \<and>
   calculatePhotonSphere (Fin 10) = calculateSchwarzschildRadius (Fin 10) * Fin 1.5 \<and>
   strict_equals (calculateEventHorizon (Fin 10)) (calculateSchwarzschildRadius (Fin 10)) \<and>
   calculateSchwarzschildRadius (Fin 10) = Fin (schwarzschild_km 10) \<and>
   calculatePhotonSphere (Fin 10) = Fin (1.5 * schwarzschild_km 10) \<and>
   (10 :: real) ^ 278 \<le> 10 ^ 300 \<and>
   calculateSchwarzschildRadius (Fin (10 ^ 300)) = PInf \<and>
   calculatePhotonSphere (Fin (10 ^ 300)) = PInf"
proof -
  have h: "1 / 10 ^ 300 \<le> (10 :: real)" "(10 :: real) \<le> 10 ^ 277"
    "(10 :: real) ^ 278 \<le> 10 ^ 300" by simp_all
  show ?thesis
    using C7_horizon_and_photon_sphere [of "Fin 10" 10]
      C7_horizon_and_photon_sphere [of "Fin 10" "10 ^ 300"] h by blast
qed

text \<open>
  C1. At spin 0 the closed form gives \<open>Z1 = 3\<close> and \<open>Z2 = 3\<close>, so the program returns
  \<open>rs * (3 + 3 - 0)\<close>: six times the Schwarzschild radius, and not the three times that
  the claim and the function's own comment state. Evaluated at mass 10 and spin 0.
\<close>

lemma sqrt9: "sqrt 9 = 3"
  using real_sqrt_abs [of 3] by simp

lemma isco_spin0_mass10: "calculateISCO (Fin 10) (Fin 0) = Fin (6 * schwarzschild_km 10)"
proof -
  have k: "range64 (schwarzschild_km 10 * 6) = Fin (schwarzschild_km 10 * 6)"
    by (rule range64_comfort) (simp_all add: schwarzschild_km_def)
  show ?thesis
    using k by (simp add: calculateISCO_def rs_10 Let_def minus_jsnum_def sqrt9 range64_eval
        mult.commute)
qed

theorem C1_isco_at_spin_zero:
  "calculateISCO (Fin 10) (Fin 0) = Fin 6 * calculateSchwarzschildRadius (Fin 10) \<and>
   calculateISCO (Fin 10) (Fin 0) \<noteq> Fin 3 * calculateSchwarzschildRadius (Fin 10)"
  by (simp add: isco_spin0_mass10 rs_10 schwarzschild_km_def range64_eval)

text \<open>
  C4, as stated, fails: the Schwarzschild radius of 10 solar masses is not below 29.535,
  so it is not 29.53 to two decimals, and it does not print as 29.53.
\<close>

theorem C4_reference_value_counterexample:
  "\<not> calculateSchwarzschildRadius (Fin 10) < Fin 29.535 \<and>
   toFixed (calculateSchwarzschildRadius (Fin 10)) 2 \<noteq> ''29.53''"
  by (simp add: rs_10 schwarzschild_km_def toFixed_def digits.simps digit_char_def Let_def)

text \<open>
  C4, amended. For every mass the program's Schwarzschild radius is
  \<open>2 G (mass solarMass) / c\<^sup>2 / 1000\<close> in the program's arithmetic, with the three
  constants of the claim. For a finite mass of magnitude between \<open>10^-300\<close> and
  \<open>10^277\<close>, and for mass 0, that is the value of the formula over the reals; from
  \<open>10^278\<close> on \<open>mass * solarMass\<close> overflows and the radius is infinite. For 10 solar
  masses the radius lies between 29.5412 and 29.5413 km and prints as 29.54.
\<close>

theorem C4_schwarzschild_radius:
  "calculateSchwarzschildRadius mass =
     ((Fin 2 * Fin (6.67430 / 10 ^ 11) * (mass * Fin (1.989 * 10 ^ 30))) /
        (Fin 299792458 * Fin 299792458)) / Fin 1000 \<and>
   (1 / 10 ^ 300 \<le> \<bar>m\<bar> \<and> \<bar>m\<bar> \<le> 10 ^ 277 \<longrightarrow>
      calculateSchwarzschildRadius (Fin m) = Fin (schwarzschild_km m)) \<and>
   calculateSchwarzschildRadius (Fin 0) = Fin (schwarzschild_km 0) \<and>
   (10 ^ 278 \<le> m \<longrightarrow> calculateSchwarzschildRadius (Fin m) = PInf) \<and>
   Fin 29.5412 < calculateSchwarzschildRadius (Fin 10) \<and>
   calculateSchwarzschildRadius (Fin 10) < Fin 29.5413 \<and>
   toFixed (calculateSchwarzschildRadius (Fin 10)) 2 = ''29.54''"
proof -
  have a: "calculateSchwarzschildRadius mass =
     ((Fin 2 * Fin (6.67430 / 10 ^ 11) * (mass * Fin (1.989 * 10 ^ 30))) /
        (Fin 299792458 * Fin 299792458)) / Fin 1000"
    by (simp only: calculateSchwarzschildRadius_def Physics_G_def Physics_c_def
        Physics_solarMass_def Let_def)
  have b: "calculateSchwarzschildRadius (Fin 0) = Fin (schwarzschild_km 0)"
    by (simp add: rs_zero schwarzschild_km_def)
  have c: "Fin 29.5412 < calculateSchwarzschildRadius (Fin 10)"
    "calculateSchwarzschildRadius (Fin 10) < Fin 29.5413"
    by (simp_all add: rs_10 schwarzschild_km_def)
  have d: "toFixed (calculateSchwarzschildRadius (Fin 10)) 2 = ''29.54''"
    by (simp add: rs_10 schwarzschild_km_def toFixed_def digits.simps digit_char_def Let_def)
  show ?thesis
    using a b c d rs_Fin [of m] rs_overflow [of m] by blast
qed

theorem C4_schwarzschild_radius_witness:
  "1 / 10 ^ 300 \<le> \<bar>10 :: real\<bar> \<and> \<bar>10 :: real\<bar> \<le> 10 ^ 277 \<and>
   calculateSchwarzschildRadius (Fin 10) = Fin (schwarzschild_km 10) \<and>
   (10 :: real) ^ 278 \<le> 10 ^ 300 \<and>
   calculateSchwarzschildRadius (Fin (10 ^ 300)) = PInf \<and>
   toFixed (calculateSchwarzschildRadius (Fin 10)) 2 = ''29.54''"
proof -
  have h: "1 / 10 ^ 300 \<le> \<bar>10 :: real\<bar>" "\<bar>10 :: real\<bar> \<le> 10 ^ 277"
    "(10 :: real) ^ 278 \<le> 10 ^ 300" by simp_all
  show ?thesis
    using C4_schwarzschild_radius [of "Fin 10" 10] C4_schwarzschild_radius [of "Fin 10" "10 ^ 300"]
      h by blast
qed

section \<open>Guards against a zero divisor\<close>












section \<open>Time dilation\<close>

lemma unit_range:
  assumes "0 \<le> q" and "q \<le> 1"
  shows "range64 q = (if q \<le> underflow_threshold then Fin 0 else Fin q)"
proof -
  have "(1 :: real) < overflow_threshold" by (simp add: overflow_threshold_def)
  with assms have "\<not> overflow_threshold \<le> q" "\<not> q \<le> - overflow_threshold" by linarith+
  then show ?thesis using assms(1) by (simp add: range64_def)
qed

lemma underflow_small: "0 < underflow_threshold" "underflow_threshold < 1 / 2 ^ 1000"
  by (simp_all add: underflow_threshold_def)

lemma td_value:
  assumes m: "1 / 10 ^ 300 \<le> m" "m \<le> 10 ^ 277"
    and r: "schwarzschild_km m < r"
  shows "\<exists>w. calculateTimeDilation (Fin m) (Fin r) = Fin (sqrt w) \<and> 0 \<le> w \<and> w \<le> 1 \<and>
           (underflow_threshold < schwarzschild_km m / r \<and>
            underflow_threshold < 1 - schwarzschild_km m / r \<longrightarrow>
              w = 1 - schwarzschild_km m / r) \<and>
           (schwarzschild_km m / r \<le> 1 / 2 \<longrightarrow> w = 1 \<or> w = 1 - schwarzschild_km m / r)"
proof -
  define s where "s = schwarzschild_km m"
  define q where "q = s / r"
  from m(1) have mpos: "0 < m" by (rule less_le_trans [rotated]) simp
  then have m': "1 / 10 ^ 300 \<le> \<bar>m\<bar>" "\<bar>m\<bar> \<le> 10 ^ 277" using m by simp_all
  have rs: "calculateSchwarzschildRadius (Fin m) = Fin s"
    unfolding s_def using m' by (rule rs_Fin)
  have spos: "0 < s" unfolding s_def using mpos by (rule rs_pos)
  from r spos have rpos: "0 < r" unfolding s_def by simp
  have q0: "0 < q" and q1: "q < 1" unfolding q_def using spos rpos r [folded s_def] by simp_all
  define q' where "q' = (if q \<le> underflow_threshold then 0 else q)"
  have dq: "Fin s / Fin r = Fin q'"
    using rpos unit_range [of q] q0 q1 by (simp add: q_def q'_def)
  have q'0: "0 \<le> q'" and q'1: "q' < 1" using q0 q1 by (simp_all add: q'_def)
  define w where "w = (if 1 - q' \<le> underflow_threshold then 0 else 1 - q')"
  have dw: "Fin 1 - Fin q' = Fin w"
    using unit_range [of "1 - q'"] q'0 q'1 by (simp add: minus_jsnum_def w_def)
  have w0: "0 \<le> w" and w1: "w \<le> 1" using q'0 q'1 by (simp_all add: w_def)
  have nle: "\<not> Fin r \<le> Fin s" using r by (simp add: s_def)
  have "calculateTimeDilation (Fin m) (Fin r) = Math_sqrt (Fin w)"
    by (simp only: calculateTimeDilation_def rs Let_def nle if_False dq dw)
  also have "Math_sqrt (Fin w) = Fin (sqrt w)" using w0 by simp
  finally have td: "calculateTimeDilation (Fin m) (Fin r) = Fin (sqrt w)" .
  have ex: "w = 1 - q" if "underflow_threshold < q" and "underflow_threshold < 1 - q"
    using that by (simp add: w_def q'_def)
  have half: "w = 1 \<or> w = 1 - q" if "q \<le> 1 / 2"
  proof -
    have "1 - q' \<ge> 1 / 2" using that q0 by (simp add: q'_def)
    moreover have "underflow_threshold < 1 / 2" using underflow_small by simp
    ultimately have "w = 1 - q'" by (simp add: w_def)
    then show ?thesis by (auto simp: q'_def)
  qed
  show ?thesis
    using td w0 w1 ex half unfolding q_def s_def by blast
qed


lemma sqrt_near_one:
  assumes "0 \<le> q" and "q \<le> 1"
  shows "\<bar>sqrt (1 - q) - 1\<bar> \<le> q"
proof -
  define v where "v = sqrt (1 - q)"
  have v0: "0 \<le> v" using assms by (simp add: v_def)
  have v1: "v \<le> 1" using assms by (simp add: v_def)
  have sq: "v * v = 1 - q" using assms by (simp add: v_def)
  have "v * v \<le> v * 1" using v1 v0 by (rule mult_left_mono)
  with sq have "1 - q \<le> v" by simp
  with v1 have "\<bar>v - 1\<bar> \<le> q" by linarith
  then show ?thesis by (simp only: v_def)
qed

lemma td_unit:
  assumes "1 / 10 ^ 300 \<le> m" and "m \<le> 10 ^ 277" and "schwarzschild_km m < r"
  shows "\<exists>v. calculateTimeDilation (Fin m) (Fin r) = Fin v \<and> 0 \<le> v \<and> v \<le> 1"
proof -
  from td_value [OF assms] obtain w where
    "calculateTimeDilation (Fin m) (Fin r) = Fin (sqrt w)" "0 \<le> w" "w \<le> 1" by blast
  moreover from this have "0 \<le> sqrt w" "sqrt w \<le> 1" by simp_all
  ultimately show ?thesis by blast
qed

lemma td_outside:
  assumes "1 / 10 ^ 300 \<le> m" and "m \<le> 10 ^ 277" and "schwarzschild_km m < r"
    and "1 / 2 ^ 1000 \<le> schwarzschild_km m / r"
    and "schwarzschild_km m / r \<le> 1 - 1 / 2 ^ 40"
  shows "calculateTimeDilation (Fin m) (Fin r) = Fin (sqrt (1 - schwarzschild_km m / r))"
proof -
  have "(1 :: real) / 2 ^ 1000 \<le> 1 / 2 ^ 40" by simp
  with assms(4,5) underflow_small(2)
  have "underflow_threshold < schwarzschild_km m / r"
    "underflow_threshold < 1 - schwarzschild_km m / r" by linarith+
  with td_value [OF assms(1-3)] show ?thesis by auto
qed

lemma td_limit:
  assumes "1 / 10 ^ 300 \<le> m" and "m \<le> 10 ^ 277" and "0 < e"
  shows "\<exists>R. \<forall>r>R. \<exists>v. calculateTimeDilation (Fin m) (Fin r) = Fin v \<and> \<bar>v - 1\<bar> < e"
proof -
  define s where "s = schwarzschild_km m"
  from assms(1) have mpos: "0 < m" by (rule less_le_trans [rotated]) simp
  have s: "0 < s" unfolding s_def using mpos by (rule rs_pos)
  have "\<exists>v. calculateTimeDilation (Fin m) (Fin r) = Fin v \<and> \<bar>v - 1\<bar> < e"
    if r: "max (2 * s) (s / e) < r" for r
  proof -
    from r have r1: "2 * s < r" and r2: "s / e < r" by simp_all
    from s r1 have rpos: "0 < r" and sr: "s < r" by linarith+
    have q0: "0 \<le> s / r" using s rpos by simp
    have qh: "s / r \<le> 1 / 2" using r1 rpos by (simp add: pos_divide_le_eq)
    have "s < e * r" using r2 assms(3) by (simp add: pos_divide_less_eq mult.commute)
    then have q2: "s / r < e" using rpos by (simp add: pos_divide_less_eq)
    from qh have q1: "s / r \<le> 1" by linarith
    from td_value [OF assms(1,2) sr [unfolded s_def]] qh [unfolded s_def] obtain w where
      td: "calculateTimeDilation (Fin m) (Fin r) = Fin (sqrt w)"
      and w: "w = 1 \<or> w = 1 - s / r" unfolding s_def by blast
    have "\<bar>sqrt w - 1\<bar> < e"
    proof (rule disjE [OF w])
      assume "w = 1"
      then show ?thesis using assms(3) by simp
    next
      assume "w = 1 - s / r"
      moreover have "\<bar>sqrt (1 - s / r) - 1\<bar> \<le> s / r" using q0 q1 by (rule sqrt_near_one)
      ultimately show ?thesis using q2 by simp
    qed
    with td show ?thesis by blast
  qed
  then show ?thesis by blast
qed

lemma td_infinite_radius:
  assumes "1 / 10 ^ 300 \<le> m" and "m \<le> 10 ^ 277"
  shows "calculateTimeDilation (Fin m) PInf = Fin 1"
proof -
  from assms(1) have mpos: "0 < m" by (rule less_le_trans [rotated]) simp
  then have m': "1 / 10 ^ 300 \<le> \<bar>m\<bar>" "\<bar>m\<bar> \<le> 10 ^ 277" using assms by simp_all
  have "range64 1 = Fin 1" by (simp add: range64_eval)
  then show ?thesis
    by (simp add: calculateTimeDilation_def rs_Fin [OF m'] minus_jsnum_def)
qed

lemma td_overflow:
  assumes "10 ^ 278 \<le> m" and "radius \<noteq> NaN"
  shows "calculateTimeDilation (Fin m) radius = Fin 0"
  using assms(2) by (cases radius) (simp_all add: calculateTimeDilation_def rs_overflow [OF assms(1)])

text \<open>
  C3, as stated, fails for a mass whose Schwarzschild radius overflows. At \<open>10^300\<close>
  solar masses the radius is infinite, every radius is at or below it, and the factor is
  0 at radius \<open>10^305\<close> and at an infinite radius: it does not approach 1.
\<close>

theorem C3_overflow_counterexample:
  "calculateSchwarzschildRadius (Fin (10 ^ 300)) = PInf \<and>
   calculateTimeDilation (Fin (10 ^ 300)) (Fin (10 ^ 305)) = Fin 0 \<and>
   calculateTimeDilation (Fin (10 ^ 300)) PInf = Fin 0"
proof -
  have h: "(10 :: real) ^ 278 \<le> 10 ^ 300" by simp
  show ?thesis
    using rs_overflow [OF h] td_overflow [OF h, of "Fin (10 ^ 305)"] td_overflow [OF h, of PInf]
    by simp
qed

text \<open>
  C3, amended. For a mass between \<open>10^-300\<close> and \<open>10^277\<close> solar masses the
  Schwarzschild radius is finite, and: a radius at or below the radius the program
  computes gives exactly 0; a finite radius above the exact radius gives a value between
  0 and 1, which is \<open>sqrt (1 - rs / radius)\<close> where \<open>rs / radius\<close> is at least
  \<open>2^-1000\<close> and at most \<open>1 - 2^-40\<close>, so that neither an underflow nor the rounding
  of \<open>rs\<close> decides the branch; as the radius grows the result approaches 1 (it is
  within any \<open>e > 0\<close> of 1 from some radius on), and at an infinite radius it is 1.
  From \<open>10^278\<close> solar masses on the Schwarzschild radius is infinite and the result
  is 0 at every radius.
\<close>

theorem C3_time_dilation:
  "(1 / 10 ^ 300 \<le> m \<and> m \<le> 10 ^ 277 \<longrightarrow>
      (radius \<le> calculateSchwarzschildRadius (Fin m) \<longrightarrow>
         calculateTimeDilation (Fin m) radius = Fin 0) \<and>
      calculateSchwarzschildRadius (Fin m) = Fin (schwarzschild_km m) \<and>
      (schwarzschild_km m < r \<longrightarrow>
         (\<exists>v. calculateTimeDilation (Fin m) (Fin r) = Fin v \<and> 0 \<le> v \<and> v \<le> 1)) \<and>
      (schwarzschild_km m < r \<and> 1 / 2 ^ 1000 \<le> schwarzschild_km m / r \<and>
       schwarzschild_km m / r \<le> 1 - 1 / 2 ^ 40 \<longrightarrow>
         calculateTimeDilation (Fin m) (Fin r) = Fin (sqrt (1 - schwarzschild_km m / r))) \<and>
      (0 < e \<longrightarrow>
         (\<exists>R. \<forall>r>R. \<exists>v. calculateTimeDilation (Fin m) (Fin r) = Fin v \<and> \<bar>v - 1\<bar> < e)) \<and>
      calculateTimeDilation (Fin m) PInf = Fin 1) \<and>
   (10 ^ 278 \<le> m \<and> radius \<noteq> NaN \<longrightarrow> calculateTimeDilation (Fin m) radius = Fin 0)"
proof -
  have a: "calculateTimeDilation (Fin m) radius = Fin 0"
    if "radius \<le> calculateSchwarzschildRadius (Fin m)"
    using that by (simp add: calculateTimeDilation_def)
  have b: "calculateSchwarzschildRadius (Fin m) = Fin (schwarzschild_km m)"
    if "1 / 10 ^ 300 \<le> m" and "m \<le> 10 ^ 277"
  proof -
    from that(1) have "0 < m" by (rule less_le_trans [rotated]) simp
    then have "1 / 10 ^ 300 \<le> \<bar>m\<bar>" "\<bar>m\<bar> \<le> 10 ^ 277" using that by simp_all
    then show ?thesis by (rule rs_Fin)
  qed
  show ?thesis
    using a b td_unit [of m r] td_outside [of m r] td_limit [of m e] td_infinite_radius [of m]
      td_overflow [of m radius]
    by blast
qed

theorem C3_time_dilation_witness:
  "1 / 10 ^ 300 \<le> (10 :: real) \<and> (10 :: real) \<le> 10 ^ 277 \<and>
   Fin 20 \<le> calculateSchwarzschildRadius (Fin 10) \<and>
   calculateTimeDilation (Fin 10) (Fin 20) = Fin 0 \<and>
   schwarzschild_km 10 < 100 \<and> 1 / 2 ^ 1000 \<le> schwarzschild_km 10 / 100 \<and>
   schwarzschild_km 10 / 100 \<le> 1 - 1 / 2 ^ 40 \<and>
   calculateTimeDilation (Fin 10) (Fin 100) = Fin (sqrt (1 - schwarzschild_km 10 / 100)) \<and>
   (\<exists>R. \<forall>r>R. \<exists>v. calculateTimeDilation (Fin 10) (Fin r) = Fin v \<and> \<bar>v - 1\<bar> < 1 / 1000)
   \<and> calculateTimeDilation (Fin 10) PInf = Fin 1 \<and>
   (10 :: real) ^ 278 \<le> 10 ^ 300 \<and> Fin 1 \<noteq> NaN \<and>
   calculateTimeDilation (Fin (10 ^ 300)) (Fin 1) = Fin 0"
proof -
  have h: "1 / 10 ^ 300 \<le> (10 :: real)" "(10 :: real) \<le> 10 ^ 277" "(0 :: real) < 1 / 1000"
    "(10 :: real) ^ 278 \<le> 10 ^ 300" "Fin 1 \<noteq> NaN" by simp_all
  have a: "Fin 20 \<le> calculateSchwarzschildRadius (Fin 10)"
    by (simp add: rs_10 schwarzschild_km_def)
  have b: "schwarzschild_km 10 < 100" "1 / 2 ^ 1000 \<le> schwarzschild_km 10 / 100"
    "schwarzschild_km 10 / 100 \<le> 1 - 1 / 2 ^ 40"
    by (simp_all add: schwarzschild_km_def)
  show ?thesis
    using C3_time_dilation [of 10 "Fin 20" 100 "1 / 1000"]
      C3_time_dilation [of "10 ^ 300" "Fin 1" 100 "1 / 1000"] h a b by blast
qed

section \<open>The colour of the accretion disk\<close>

text \<open>
  C9. The mass argument is never read: any two masses give the same colour, for every
  radius and every colour temperature.
\<close>

theorem C9_colour_ignores_mass:
  "calculateAccretionTemperature m1 radius colorTemp =
   calculateAccretionTemperature m2 radius colorTemp"
  by (simp add: calculateAccretionTemperature_def)

text \<open>
  At the radius \<open>2.44140625 = (5/4)\<^sup>4\<close> the base factor is \<open>64/125 = 0.512\<close>, so
  the temperature is \<open>0.256 (1 + colorTemp)\<close> and crosses 0.33 inside the range of the
  colour temperature.
\<close>

lemma pow_radius: "(625 / 256) powr (3 / 4) = (125 / 64 :: real)"
proof -
  have e: "(625 / 256 :: real) = (5 / 4) powr 4" by (simp add: power_divide)
  have "(625 / 256 :: real) powr (3 / 4) = ((5 / 4) powr 4) powr (3 / 4)"
    by (simp only: e)
  also have "\<dots> = (5 / 4) powr 3" by (simp only: powr_powr) simp
  also have "\<dots> = 125 / 64" by (simp add: power_divide)
  finally show ?thesis .
qed

lemma base_factor: "Fin 1.0 / Math_pow (Fin (625 / 256)) (Fin 0.75) = Fin (64 / 125)"
  by (simp add: pow_radius range64_eval)

lemma near_third:
  assumes t: "32 / 100 < t" "t < 34 / 100"
  shows "Fin (64 / 125) * (Fin 0.5 + Fin (t / 0.256 - 1) * Fin 0.5) = Fin t"
proof -
  define ct where "ct = t / 0.256 - 1"
  have c1: "1 / 4 \<le> ct" "ct \<le> 1 / 3" using t by (simp_all add: ct_def field_simps)
  have a: "Fin ct * Fin 0.5 = Fin (ct * 0.5)"
  proof -
    have "range64 (ct * 0.5) = Fin (ct * 0.5)"
      using c1 by (intro range64_comfort) (simp_all add: abs_mult)
    then show ?thesis by simp
  qed
  have b: "Fin 0.5 + Fin (ct * 0.5) = Fin (0.5 + ct * 0.5)"
  proof -
    have "range64 (0.5 + ct * 0.5) = Fin (0.5 + ct * 0.5)"
      using c1 by (intro range64_comfort) simp_all
    then show ?thesis by simp
  qed
  have e: "64 / 125 * (0.5 + ct * 0.5) = t" by (simp add: ct_def field_simps)
  have c: "Fin (64 / 125) * Fin (0.5 + ct * 0.5) = Fin t"
  proof -
    have "range64 t = Fin t"
      using t by (intro range64_comfort) simp_all
    then show ?thesis using e by simp
  qed
  show ?thesis unfolding ct_def [symmetric] a b c ..
qed


lemma pos_range:
  assumes "1 / 10 ^ 100 \<le> p" and "p \<le> 10"
  shows "range64 p = Fin p"
proof (rule range64_comfort)
  have "(1 :: real) / 10 ^ 320 \<le> 1 / 10 ^ 100" "(0 :: real) < 1 / 10 ^ 100" by simp_all
  with assms(1) show "1 / 10 ^ 320 \<le> \<bar>p\<bar>" by linarith
  have "(10 :: real) \<le> 10 ^ 308" "(0 :: real) < 1 / 10 ^ 100" by simp_all
  with assms show "\<bar>p\<bar> \<le> 10 ^ 308" by linarith
qed

text \<open>
  However close the temperature is to 0.33, the red channel is \<open>0.99 - 3 d\<close> at
  \<open>0.33 - d\<close> and \<open>0.33 + 2.01 d\<close> at \<open>0.33 + d\<close>: a jump of 0.66 at the boundary.
\<close>

lemma red_jump:
  assumes "1 / 10 ^ 100 \<le> d" and "d < 1 / 100"
  shows "rgb_r (calculateAccretionTemperature mass (Fin (625 / 256))
                  (Fin ((0.33 - d) / 0.256 - 1))) = Fin (0.99 - 3 * d) \<and>
         rgb_r (calculateAccretionTemperature mass (Fin (625 / 256))
                  (Fin ((0.33 + d) / 0.256 - 1))) = Fin (0.33 + 2.01 * d)"
proof -
  have p: "(0 :: real) < 1 / 10 ^ 100" by simp
  with assms have dpos: "0 < d" by linarith
  have m1: "Fin 1.0 / Math_pow (Fin (625 / 256)) (Fin 0.75) *
            (Fin 0.5 + Fin ((0.33 - d) / 0.256 - 1) * Fin 0.5) = Fin (0.33 - d)"
    unfolding base_factor using assms dpos by (intro near_third) simp_all
  have m2: "Fin 1.0 / Math_pow (Fin (625 / 256)) (Fin 0.75) *
            (Fin 0.5 + Fin ((0.33 + d) / 0.256 - 1) * Fin 0.5) = Fin (0.33 + d)"
    unfolding base_factor using assms dpos by (intro near_third) simp_all
  have lt1: "Fin (0.33 - d) < Fin 0.33" using dpos by simp
  have lt2: "\<not> Fin (0.33 + d) < Fin 0.33" "Fin (0.33 + d) < Fin 0.66"
    using dpos assms by simp_all
  have r1: "Fin (0.33 - d) * Fin 3.0 = Fin (0.99 - 3 * d)"
  proof -
    have "range64 ((0.33 - d) * 3.0) = Fin ((0.33 - d) * 3.0)"
      using assms dpos by (intro pos_range) simp_all
    then show ?thesis by (simp add: algebra_simps)
  qed
  have s1: "Fin (0.33 + d) - Fin 0.33 = Fin d"
  proof -
    have "range64 d = Fin d" using assms by (intro pos_range) simp_all
    then show ?thesis by (simp add: minus_jsnum_def)
  qed
  have s2: "Fin d * Fin 3.0 = Fin (3 * d)"
  proof -
    have "range64 (3 * d) = Fin (3 * d)" using assms by (intro pos_range) simp_all
    then show ?thesis by (simp add: mult.commute)
  qed
  have s3: "Fin (3 * d) * Fin 0.67 = Fin (2.01 * d)"
  proof -
    have "range64 (2.01 * d) = Fin (2.01 * d)" using assms by (intro pos_range) simp_all
    moreover have "3 * d * 0.67 = 2.01 * d" by simp
    ultimately show ?thesis by simp
  qed
  have s4: "Fin 0.33 + Fin (2.01 * d) = Fin (0.33 + 2.01 * d)"
  proof -
    have "range64 (0.33 + 2.01 * d) = Fin (0.33 + 2.01 * d)"
      using assms dpos by (intro pos_range) simp_all
    then show ?thesis by simp
  qed
  show ?thesis
    unfolding calculateAccretionTemperature_def Let_def m1 m2
    by (simp only: lt1 lt2 if_True if_False r1 s1 s2 s3 s4 rgb.simps simp_thms)
qed

text \<open>The three channels on both sides of each boundary.\<close>

lemma colour_near_033:
  "calculateAccretionTemperature mass (Fin 2.44140625) (Fin 0.289) =
     \<lparr>rgb_r = Fin 0.989952, rgb_g = Fin 0.82496, rgb_b = Fin 1\<rparr> \<and>
   calculateAccretionTemperature mass (Fin 2.44140625) (Fin 0.2891) =
     \<lparr>rgb_r = Fin 0.330019296, rgb_g = Fin 0.830004896, rgb_b = Fin 0.99999136\<rparr>"
  by (simp add: calculateAccretionTemperature_def Let_def minus_jsnum_def pow_radius range64_eval)

lemma colour_near_066:
  "calculateAccretionTemperature mass (Fin 1) (Fin 0.3199) =
     \<lparr>rgb_r = Fin 0.9931995, rgb_g = Fin 0.9982745, rgb_b = Fin 0.703045\<rparr> \<and>
   calculateAccretionTemperature mass (Fin 1) (Fin 0.3201) =
     \<lparr>rgb_r = Fin 1, rgb_g = Fin 0.99991, rgb_b = Fin 0.69991\<rparr>"
  by (simp add: calculateAccretionTemperature_def Let_def minus_jsnum_def range64_eval)

text \<open>
  C2. The mapping is not continuous at 0.33. At radius 2.44140625 the colour
  temperatures 0.289 and 0.2891 give the temperatures 0.329984 and 0.3300096, on the two
  sides of the boundary and \<open>2.56e-5\<close> apart, and the red channel falls from 0.989952
  to 0.330019296: the cool band ends at \<open>3 * 0.33 = 0.99\<close> where the medium band
  starts at 0.33.
\<close>

theorem C2_red_channel_jumps_at_033:
  "rgb_r (calculateAccretionTemperature (Fin 10) (Fin 2.44140625) (Fin 0.289)) = Fin 0.989952 \<and>
   rgb_r (calculateAccretionTemperature (Fin 10) (Fin 2.44140625) (Fin 0.2891)) = Fin 0.330019296"
  by (simp add: calculateAccretionTemperature_def Let_def minus_jsnum_def pow_radius range64_eval)

section \<open>Formatting\<close>

lemma digits_small: "n < 10 \<Longrightarrow> digits n = [digit_char n]"
  by (simp add: digits.simps)

lemma digits_step: "10 \<le> n \<Longrightarrow> digits n = digits (n div 10) @ [digit_char (n mod 10)]"
  by (subst digits.simps) simp

lemma digits_nonempty: "digits n \<noteq> []"
  by (subst digits.simps) simp

lemma digits_split:
  assumes "100 \<le> n"
  shows "digits n = digits (n div 100) @ [digit_char (n mod 100 div 10), digit_char (n mod 10)]"
proof -
  have a: "10 \<le> n" and b: "10 \<le> n div 10" using assms by simp_all
  have c: "n div 10 div 10 = n div 100" by (simp add: div_mult2_eq [symmetric])
  have "n mod 100 = 10 * (n div 10 mod 10) + n mod 10"
    using mod_mult2_eq [of n 10 10] by simp
  then have d: "n div 10 mod 10 = n mod 100 div 10" by simp
  have "digits n = digits (n div 10) @ [digit_char (n mod 10)]" using a by (rule digits_step)
  also have "digits (n div 10) = digits (n div 10 div 10) @ [digit_char (n div 10 mod 10)]"
    using b by (rule digits_step)
  finally show ?thesis by (simp only: c d append_assoc append_Cons append_Nil)
qed

text \<open>
  The string surgery of \<open>toFixed\<close> with two fraction digits (pad with zeros to three
  characters, put the point before the last two) yields the integer part, the point and
  the two digits of the hundredths.
\<close>

lemma fixed2_digits:
  "(let m = digits n;
        k = length m;
        m = (if k \<le> 2 then replicate (2 + 1 - k) CHR ''0'' @ m else m);
        k = length m
    in take (k - 2) m @ ''.'' @ drop (k - 2) m) =
   digits (n div 100) @ ''.'' @ [digit_char (n mod 100 div 10), digit_char (n mod 10)]"
proof -
  consider "n < 10" | "10 \<le> n" "n < 100" | "100 \<le> n" by linarith
  then show ?thesis
  proof cases
    case 1
    then show ?thesis by (simp add: digits_small digit_char_def)
  next
    case 2
    then have "n div 10 < 10" by simp
    with 2 show ?thesis
      by (simp add: digits_step digits_small digit_char_def)
  next
    case 3
    show ?thesis by (simp add: digits_split [OF 3] digits_nonempty Let_def)
  qed
qed

lemma toFixed_two_decimals:
  assumes "\<bar>v\<bar> < 10 ^ 21"
  shows "toFixed (Fin v) 2 = two_decimals v"
proof -
  have "\<not> 10 ^ 21 \<le> \<bar>v\<bar>" using assms by simp
  then show ?thesis
    using fixed2_digits [of "nat \<lfloor>\<bar>v\<bar> * 10\<^sup>2 + 1 / 2\<rfloor>"]
    by (simp add: toFixed_def two_decimals_def Let_def)
qed

lemma toFixed_negative: "v < 0 \<Longrightarrow> hd (toFixed (Fin v) f @ rest) = CHR ''-''"
  by (simp add: toFixed_def Let_def)

text \<open>
  The formatter prints some number with \<open>toFixed(2)\<close> and appends the prefix of the
  thresholds and the unit. The scaled value stays inside the range of binary64 when it is
  below \<open>10^21\<close> in magnitude and the value is zero or at least \<open>2^-1074\<close> in
  magnitude, the least magnitude of a nonzero binary64 value.
\<close>

lemma formatValue_scaled:
  "\<exists>x. formatValue (Fin v) unit = toFixed x 2 @ magnitude_prefix v @ unit"
  by (simp add: formatValue_def magnitude_prefix_def) blast

lemma scaled_range:
  assumes "\<bar>magnitude_scaled v\<bar> < 10 ^ 21" and "v = 0 \<or> 1 / 2 ^ 1074 \<le> \<bar>v\<bar>"
  shows "range64 (magnitude_scaled v) = Fin (magnitude_scaled v)"
proof (cases "v = 0")
  case True
  then show ?thesis by (simp add: magnitude_scaled_def range64_0)
next
  case False
  with assms(2) have v: "1 / 2 ^ 1074 \<le> \<bar>v\<bar>" by simp
  have lo: "1 / 2 ^ 1074 \<le> \<bar>magnitude_scaled v\<bar>"
  proof (cases "1 \<le> v")
    case True
    have "(1 :: real) / 2 ^ 1074 \<le> 1 / 10 ^ 6" by simp
    moreover have "1 / 10 ^ 6 \<le> \<bar>magnitude_scaled v\<bar>"
      using True by (simp add: magnitude_scaled_def field_simps)
    ultimately show ?thesis by (rule order_trans)
  next
    case False
    then have "\<bar>magnitude_scaled v\<bar> = \<bar>v\<bar> * 1000" by (simp add: magnitude_scaled_def abs_mult)
    moreover have "\<bar>v\<bar> \<le> \<bar>v\<bar> * 1000" by simp
    ultimately show ?thesis using v by linarith
  qed
  have "underflow_threshold < 1 / 2 ^ 1074" by (simp add: underflow_threshold_def)
  with lo have a: "\<not> \<bar>magnitude_scaled v\<bar> \<le> underflow_threshold" by linarith
  have "(10 :: real) ^ 21 < overflow_threshold" by (simp add: overflow_threshold_def)
  with assms(1) have "\<not> overflow_threshold \<le> magnitude_scaled v"
    "\<not> magnitude_scaled v \<le> - overflow_threshold" by linarith+
  with a show ?thesis by (simp add: range64_def)
qed

lemma formatValue_clear:
  assumes "clear_of_ties (magnitude_scaled v)"
    and "\<bar>magnitude_scaled v\<bar> < 10 ^ 21" and "v = 0 \<or> 1 / 2 ^ 1074 \<le> \<bar>v\<bar>"
  shows "formatValue (Fin v) unit =
         two_decimals (magnitude_scaled v) @ magnitude_prefix v @ unit"
proof -
  note r = scaled_range [OF assms(2,3)]
  note t = toFixed_two_decimals [OF assms(2)]
  consider "10 ^ 6 \<le> v" | "\<not> 10 ^ 6 \<le> v" "10 ^ 3 \<le> v"
    | "\<not> 10 ^ 6 \<le> v" "\<not> 10 ^ 3 \<le> v" "1 \<le> v"
    | "\<not> 10 ^ 6 \<le> v" "\<not> 10 ^ 3 \<le> v" "\<not> 1 \<le> v" by blast
  then show ?thesis
  proof cases
    case 1
    with r t show ?thesis
      by (simp add: formatValue_def magnitude_prefix_def magnitude_scaled_def)
  next
    case 2
    with r t show ?thesis
      by (simp add: formatValue_def magnitude_prefix_def magnitude_scaled_def)
  next
    case 3
    with r t show ?thesis
      by (simp add: formatValue_def magnitude_prefix_def magnitude_scaled_def)
  next
    case 4
    with r t show ?thesis
      by (simp add: formatValue_def magnitude_prefix_def magnitude_scaled_def)
  qed
qed


lemma formatValue_examples:
  "formatValue (Fin 29.53) ''km'' = ''29.53 km''"
  "formatValue (Fin 1500) ''km'' = ''1.50 kkm''"
  "formatValue (Fin 0.5) ''km'' = ''500.00 mkm''"
  "formatValue (Fin 0) ''km'' = ''0.00 mkm''"
  by (simp_all add: formatValue_def toFixed_def Let_def digits.simps digit_char_def range64_eval)

text \<open>From \<open>10^21\<close> on the scaled value prints in scientific notation.\<close>

lemma formatValue_exponential:
  "formatValue (Fin (10 ^ 27)) ''km'' = ''1e+21 Mkm''"
  "formatValue (Fin (- (10 ^ 18))) ''km'' = ''-1e+21 mkm''"
  "formatValue (Fin (- (15 * 10 ^ 17))) ''km'' = ''-1.5e+21 mkm''"
  "formatValue (Fin (- (2 * 10 ^ 18))) ''km'' = ''-2e+21 mkm''"
  by (simp_all add: formatValue_def toFixed_def Let_def toString_large_def strip_zeros_def
      digits.simps digit_char_def range64_eval)

lemma formatValue_negative_overflow:
  assumes "v \<le> - (10 ^ 306)"
  shows "formatValue (Fin v) unit = ''-Infinity m'' @ unit"
proof -
  have p: "(0 :: real) < 10 ^ 306" by simp
  with assms have v0: "v < 0" by linarith
  have "(0 :: real) < 10 ^ 6" "(0 :: real) < 10 ^ 3" by simp_all
  with v0 have neg: "\<not> 10 ^ 6 \<le> v" "\<not> 10 ^ 3 \<le> v" "\<not> 1 \<le> v" by linarith+
  have "overflow_threshold \<le> (10 :: real) ^ 306 * 1000" by (simp add: overflow_threshold_def)
  with assms have a: "v * 1000 \<le> - overflow_threshold" by linarith
  have "0 < overflow_threshold" by (simp add: overflow_threshold_def)
  with a have "range64 (v * 1000) = NInf" by (simp add: range64_def)
  with neg show ?thesis by (simp add: formatValue_def toFixed_def)
qed

lemma formatValue_minus_sign:
  assumes "v \<le> - (1 / 2 ^ 1074)"
  shows "hd (formatValue (Fin v) unit) = CHR ''-''"
proof -
  have p: "(0 :: real) < 1 / 2 ^ 1074" by simp
  with assms have v0: "v < 0" by linarith
  have "(0 :: real) < 10 ^ 6" "(0 :: real) < 10 ^ 3" by simp_all
  with v0 have neg: "\<not> 10 ^ 6 \<le> v" "\<not> 10 ^ 3 \<le> v" "\<not> 1 \<le> v" by linarith+
  have u: "underflow_threshold < 1 / 2 ^ 1074" "0 < overflow_threshold"
    by (simp_all add: underflow_threshold_def overflow_threshold_def)
  have "v * 1000 \<le> v" using v0 by simp
  with assms u(1) have nu: "\<not> \<bar>v * 1000\<bar> \<le> underflow_threshold" by linarith
  have "v * 1000 < 0" using v0 by simp
  with u(2) have no: "\<not> overflow_threshold \<le> v * 1000" by linarith
  have "range64 (v * 1000) = NInf \<or> range64 (v * 1000) = Fin (v * 1000)"
    using nu no by (simp add: range64_def)
  then show ?thesis
  proof
    assume "range64 (v * 1000) = NInf"
    with neg show ?thesis by (simp add: formatValue_def toFixed_def)
  next
    assume "range64 (v * 1000) = Fin (v * 1000)"
    moreover have "v * 1000 < 0" using v0 by simp
    ultimately show ?thesis
      using neg toFixed_negative [of "v * 1000" 2 "'' m'' @ unit"] by (simp add: formatValue_def)
  qed
qed

lemma two_decimals_large:
  "two_decimals (magnitude_scaled (10 ^ 27)) = ''1000000000000000000000.00''"
  "two_decimals (- (10 ^ 18) * 1000) = ''-1000000000000000000000.00''"
  by (simp_all add: two_decimals_def magnitude_scaled_def digits.simps digit_char_def)


text \<open>
  C8, as stated, fails for great values: \<open>10^27\<close> takes the mega prefix, the scaled
  value is \<open>10^21\<close>, where \<open>toFixed\<close> leaves fixed notation, and the result is
  \<open>1e+21 Mkm\<close>, not a number rounded to two decimals.
\<close>

theorem C8_large_value_counterexample:
  "formatValue (Fin (10 ^ 27)) ''km'' = ''1e+21 Mkm'' \<and>
   formatValue (Fin (10 ^ 27)) ''km'' \<noteq>
     two_decimals (magnitude_scaled (10 ^ 27)) @ magnitude_prefix (10 ^ 27) @ ''km''"
proof -
  have c: "magnitude_prefix (10 ^ 27) = '' M''" by (simp add: magnitude_prefix_def)
  show ?thesis
    unfolding formatValue_exponential(1) two_decimals_large(1) c by simp
qed

text \<open>
  C8, amended. On a finite value the formatter picks the prefix by the thresholds
  \<open>10^6\<close> (\<open>M\<close>), \<open>10^3\<close> (\<open>k\<close>) and 1 (none), and \<open>m\<close> below 1, and prints a
  number with \<open>toFixed(2)\<close>, which rounds its receiver to two decimals on every
  magnitude below \<open>10^21\<close>. Where the scaled value is below \<open>10^21\<close> in magnitude
  and clear of ties, the number printed is the scaled value rounded to two decimals. The
  three examples of the claim print as it says.
\<close>

theorem C8_format_thresholds:
  "(\<exists>x. formatValue (Fin v) unit = toFixed x 2 @ magnitude_prefix v @ unit) \<and>
   (\<bar>w\<bar> < 10 ^ 21 \<longrightarrow> toFixed (Fin w) 2 = two_decimals w) \<and>
   (clear_of_ties (magnitude_scaled v) \<and> \<bar>magnitude_scaled v\<bar> < 10 ^ 21 \<and>
    (v = 0 \<or> 1 / 2 ^ 1074 \<le> \<bar>v\<bar>) \<longrightarrow>
      formatValue (Fin v) unit =
      two_decimals (magnitude_scaled v) @ magnitude_prefix v @ unit) \<and>
   formatValue (Fin 29.53) ''km'' = ''29.53 km'' \<and>
   formatValue (Fin 1500) ''km'' = ''1.50 kkm'' \<and>
   formatValue (Fin 0.5) ''km'' = ''500.00 mkm''"
  using formatValue_scaled [of v unit] toFixed_two_decimals [of w] formatValue_clear [of v unit]
    formatValue_examples(1-3)
  by blast

theorem C8_format_thresholds_witness:
  "\<bar>1.5 :: real\<bar> < 10 ^ 21 \<and> toFixed (Fin 1.5) 2 = two_decimals 1.5 \<and>
   clear_of_ties (magnitude_scaled 1500) \<and> \<bar>magnitude_scaled 1500\<bar> < 10 ^ 21 \<and>
   1 / 2 ^ 1074 \<le> \<bar>1500 :: real\<bar> \<and>
   formatValue (Fin 1500) ''km'' =
     two_decimals (magnitude_scaled 1500) @ magnitude_prefix 1500 @ ''km'' \<and>
   magnitude_scaled 1500 = 1.5 \<and> magnitude_prefix 1500 = '' k'' \<and>
   two_decimals 1.5 = ''1.50'' \<and>
   formatValue (Fin 1500) ''km'' = ''1.50 kkm''"
proof -
  have a: "\<bar>1.5 :: real\<bar> < 10 ^ 21" "1 / 2 ^ 1074 \<le> \<bar>1500 :: real\<bar>" by simp_all
  have b: "magnitude_scaled 1500 = 1.5" "magnitude_prefix 1500 = '' k''"
    by (simp_all add: magnitude_scaled_def magnitude_prefix_def)
  have c: "clear_of_ties (magnitude_scaled 1500)"
    by (simp add: b clear_of_ties_def Let_def frac_def)
  have d: "\<bar>magnitude_scaled 1500\<bar> < 10 ^ 21" by (simp add: b)
  have e: "two_decimals 1.5 = ''1.50''"
    by (simp add: two_decimals_def digits.simps digit_char_def)
  note t = C8_format_thresholds [of 1500 "''km''" "1.5"]
  from t a have t1: "toFixed (Fin 1.5) 2 = two_decimals 1.5" by blast
  from t a c d have t2: "formatValue (Fin 1500) ''km'' =
     two_decimals (magnitude_scaled 1500) @ magnitude_prefix 1500 @ ''km''" by blast
  from t have t3: "formatValue (Fin 1500) ''km'' = ''1.50 kkm''" by blast
  show ?thesis using a b c d e t1 t2 t3 by blast
qed

text \<open>
  C10, as stated, fails for values of great magnitude: at \<open>-10^18\<close> the milli branch
  scales to \<open>-10^21\<close>, where \<open>toFixed\<close> leaves fixed notation, and the result is
  \<open>-1e+21 mkm\<close> and not the value rounded to two decimals.
\<close>

theorem C10_large_magnitude_counterexample:
  "formatValue (Fin (- (10 ^ 18))) ''km'' = ''-1e+21 mkm'' \<and>
   formatValue (Fin (- (10 ^ 18))) ''km'' \<noteq> two_decimals (- (10 ^ 18) * 1000) @ '' mkm''"
  unfolding formatValue_exponential(2) two_decimals_large(2) by simp

text \<open>
  C10, amended. The formatter is total, and every finite value below 1, zero and the
  negative values included, takes the milli branch: the result is a number printed by
  \<open>toFixed(2)\<close>, then \<open> m\<close> and the unit. For a value above \<open>-10^18\<close> that is zero
  or at least \<open>2^-1074\<close> in magnitude, as every binary64 value is, and whose product
  with 1000 is clear of ties, the number is \<open>value * 1000\<close> rounded to two decimals. A
  negative value prints with a leading minus sign, and 0 prints as \<open>0.00 mkm\<close>. At
  \<open>-1.5 * 10^18\<close> the result is \<open>-1.5e+21 mkm\<close>, and from \<open>-10^306\<close> down the product
  overflows and the result is \<open>-Infinity m\<close> and the unit.
\<close>

theorem C10_milli_branch:
  assumes "v < 1"
  shows "(\<exists>x. formatValue (Fin v) unit = toFixed x 2 @ '' m'' @ unit) \<and>
         (- (10 ^ 18) < v \<and> (v = 0 \<or> 1 / 2 ^ 1074 \<le> \<bar>v\<bar>) \<and> clear_of_ties (v * 1000) \<longrightarrow>
            formatValue (Fin v) unit = two_decimals (v * 1000) @ '' m'' @ unit) \<and>
         (v \<le> - (1 / 2 ^ 1074) \<longrightarrow> hd (formatValue (Fin v) unit) = CHR ''-'') \<and>
         (v \<le> - (10 ^ 306) \<longrightarrow> formatValue (Fin v) unit = ''-Infinity m'' @ unit) \<and>
         formatValue (Fin 0) ''km'' = ''0.00 mkm'' \<and>
         formatValue (Fin (- (15 * 10 ^ 17))) ''km'' = ''-1.5e+21 mkm''"
proof -
  have neg: "\<not> 10 ^ 6 \<le> v" "\<not> 10 ^ 3 \<le> v" "\<not> 1 \<le> v"
  proof -
    have "(1 :: real) \<le> 10 ^ 6" "(1 :: real) \<le> 10 ^ 3" by simp_all
    with assms show "\<not> 10 ^ 6 \<le> v" "\<not> 10 ^ 3 \<le> v" "\<not> 1 \<le> v" by linarith+
  qed
  then have p: "magnitude_prefix v = '' m''" and s: "magnitude_scaled v = v * 1000"
    by (simp_all add: magnitude_prefix_def magnitude_scaled_def)
  have a: "\<exists>x. formatValue (Fin v) unit = toFixed x 2 @ '' m'' @ unit"
    using formatValue_scaled [of v unit] by (simp only: p)
  have b: "formatValue (Fin v) unit = two_decimals (v * 1000) @ '' m'' @ unit"
    if "- (10 ^ 18) < v" and "v = 0 \<or> 1 / 2 ^ 1074 \<le> \<bar>v\<bar>" and "clear_of_ties (v * 1000)"
  proof -
    have "\<bar>v * 1000\<bar> < 10 ^ 21" using that(1) assms by (simp add: abs_less_iff)
    then show ?thesis
      using formatValue_clear [of v unit] that(2,3) by (simp only: p s)
  qed
  show ?thesis
    using a b formatValue_minus_sign [of v unit] formatValue_negative_overflow [of v unit]
      formatValue_examples(4) formatValue_exponential(3)
    by blast
qed

theorem C10_milli_branch_witness:
  "(- 0.5 :: real) < 1 \<and> - (10 ^ 18) < (- 0.5 :: real) \<and> 1 / 2 ^ 1074 \<le> \<bar>- 0.5 :: real\<bar> \<and>
   clear_of_ties (- 0.5 * 1000) \<and> (- 0.5 :: real) \<le> - (1 / 2 ^ 1074) \<and>
   formatValue (Fin (- 0.5)) ''km'' = two_decimals (- 0.5 * 1000) @ '' m'' @ ''km'' \<and>
   two_decimals (- 0.5 * 1000) = ''-500.00'' \<and>
   formatValue (Fin (- 0.5)) ''km'' = ''-500.00 mkm'' \<and>
   hd (formatValue (Fin (- 0.5)) ''km'') = CHR ''-'' \<and>
   - (10 ^ 307) < (1 :: real) \<and> - (10 ^ 307) \<le> - ((10 :: real) ^ 306) \<and>
   formatValue (Fin (- (10 ^ 307))) ''km'' = ''-Infinity m'' @ ''km'' \<and>
   formatValue (Fin 0) ''km'' = ''0.00 mkm''"
proof -
  have a: "(- 0.5 :: real) < 1" "- (10 ^ 18) < (- 0.5 :: real)"
    "1 / 2 ^ 1074 \<le> \<bar>- 0.5 :: real\<bar>" "(- 0.5 :: real) \<le> - (1 / 2 ^ 1074)"
    "- (10 ^ 307) < (1 :: real)" "- (10 ^ 307) \<le> - ((10 :: real) ^ 306)" by simp_all
  have c: "clear_of_ties (- 0.5 * 1000)"
    by (simp add: clear_of_ties_def Let_def frac_def)
  have d: "two_decimals (- 0.5 * 1000) = ''-500.00''"
    by (simp add: two_decimals_def digits.simps digit_char_def)
  note t = C10_milli_branch [OF a(1), of "''km''"]
  note u = C10_milli_branch [OF a(5), of "''km''"]
  from t a c have t2: "formatValue (Fin (- 0.5)) ''km'' =
      two_decimals (- 0.5 * 1000) @ '' m'' @ ''km''" by blast
  from t a have t3: "hd (formatValue (Fin (- 0.5)) ''km'') = CHR ''-''" by blast
  from t have t4: "formatValue (Fin 0) ''km'' = ''0.00 mkm''" by blast
  from t2 d have t5: "formatValue (Fin (- 0.5)) ''km'' = ''-500.00 mkm''" by simp
  from u a have t6: "formatValue (Fin (- (10 ^ 307))) ''km'' = ''-Infinity m'' @ ''km''" by blast
  show ?thesis using a c d t2 t3 t4 t5 t6 by blast
qed

end
